theory Spec2Isabelle
  imports Complex_Main "HOL-Library.Sublist"
begin

section \<open>Data model of \<open>App.tsx\<close>\<close>

text \<open>
  A JavaScript \<open>number\<close> is modelled as a real: sums, products and differences of the
  simulator are exact here, where the source rounds to the nearest double. The one
  operation of the tick that can leave the finite numbers, the division by the server
  capacity, returns a \<open>js_number\<close>, which keeps \<open>Infinity\<close> and \<open>NaN\<close> apart from
  the finite results. Values read from the range inputs with \<open>parseInt\<close> are integers.
  \<open>Math.random()\<close> is a parameter of every function that calls it, ranging over
  \<open>[0, 1)\<close>.
\<close>

datatype js_number = Finite real | PosInfinity | NegInfinity | NaN

record ServerConfig =
  cpu :: int
  ram :: int
  bandwidth :: int
  storage :: int

record SecurityMeasures =
  fail2ban :: bool
  pfsense :: bool
  cloudflare :: bool
  loadBalancer :: bool
  waf :: bool

record MetricPoint =
  mp_timestamp :: int
  mp_value :: real

datatype ConfigKey = Cpu | Ram | Bandwidth | Storage

datatype SecurityKey = Fail2ban | Pfsense | Cloudflare | LoadBalancer | Waf

datatype ParticleType = attack | legitimate

record Particle =
  p_x :: real
  p_y :: real
  p_speed :: real
  p_color :: string
  p_type :: ParticleType

record Canvas =
  width :: real
  height :: real
  context2d :: bool

text \<open>The closure of the \<open>setInterval\<close> callback: the values of the render that ran the effect.\<close>

record TimerClosure =
  t_security :: SecurityMeasures
  t_attackIntensity :: int
  t_serverConfig :: ServerConfig

text \<open>
  One run of the animator effect: its \<open>particles\<close> variable and the \<open>security\<close> its
  \<open>resetParticle\<close> closes over. \<open>animate\<close> ends with \<open>requestAnimationFrame(animate)\<close>,
  so every such run holds one pending animation frame.
\<close>

record AnimLoop =
  particles :: "Particle list"
  a_security :: SecurityMeasures
  a_canvas :: Canvas

text \<open>
  The three calls of \<open>Math.random()\<close> of one \<open>resetParticle\<close> (for \<open>y\<close>, \<open>speed\<close> and
  \<open>type\<close>, in this order), for the particle at each index of the pool.
\<close>

type_synonym Draws = "nat \<Rightarrow> real \<times> real \<times> real"

record AppState =
  serverConfig :: ServerConfig
  security :: SecurityMeasures
  isSimulating :: bool
  attackIntensity :: int
  canvasRef :: "Canvas option"
  metrics :: "MetricPoint list"
  serverLoad :: js_number
  legitimateTraffic :: real
  maliciousTraffic :: real
  interval :: "TimerClosure option"
  animLoops :: "AnimLoop list"
  animCleanup :: bool

section \<open>JavaScript primitives\<close>

fun js_div :: "real \<Rightarrow> real \<Rightarrow> js_number" where
  "js_div a b =
     (if b \<noteq> 0 then Finite (a / b)
      else if a = 0 then NaN
      else if 0 < a then PosInfinity else NegInfinity)"

fun js_mul :: "js_number \<Rightarrow> real \<Rightarrow> js_number" where
  "js_mul (Finite a) c = Finite (a * c)"
| "js_mul PosInfinity c = (if 0 < c then PosInfinity else if c < 0 then NegInfinity else NaN)"
| "js_mul NegInfinity c = (if 0 < c then NegInfinity else if c < 0 then PosInfinity else NaN)"
| "js_mul NaN c = NaN"

fun Math_min :: "real \<Rightarrow> js_number \<Rightarrow> js_number" where
  "Math_min a (Finite b) = Finite (min a b)"
| "Math_min a PosInfinity = Finite a"
| "Math_min a NegInfinity = NegInfinity"
| "Math_min a NaN = NaN"

text \<open>\<open>xs.slice(start)\<close>: a negative start counts from the end, and both are cut to the array.\<close>

definition slice :: "int \<Rightarrow> 'a list \<Rightarrow> 'a list" where
  "slice start xs =
     (let len = int (length xs);
          k = (if start < 0 then max (len + start) 0 else min start len)
      in drop (nat k) xs)"

definition Object_values :: "SecurityMeasures \<Rightarrow> bool list" where
  "Object_values s = [fail2ban s, pfsense s, cloudflare s, loadBalancer s, waf s]"

section \<open>Protection scorer\<close>

text \<open>\<open>Object.values(security).filter(Boolean).length\<close>\<close>

definition protectionLevel :: "SecurityMeasures \<Rightarrow> nat" where
  "protectionLevel s = length (filter (\<lambda>b. b) (Object_values s))"

definition getProtectionScore :: "SecurityMeasures \<Rightarrow> real" where
  "getProtectionScore s = (real (protectionLevel s) / 5) * 100"

section \<open>Metrics engine\<close>

definition baseLoad :: "int \<Rightarrow> SecurityMeasures \<Rightarrow> real" where
  "baseLoad ai s = real_of_int ai * (1 - real (protectionLevel s) * 0.15)"

definition randomVariation :: "real \<Rightarrow> real" where
  "randomVariation r = r * 20 - 10"

definition sample :: "int \<Rightarrow> SecurityMeasures \<Rightarrow> real \<Rightarrow> real" where
  "sample ai s r = max 0 (min 100 (baseLoad ai s + randomVariation r))"

definition serverCapacity :: "ServerConfig \<Rightarrow> real" where
  "serverCapacity c =
     (real_of_int (cpu c) * 10 + real_of_int (ram c) * 2 + real_of_int (bandwidth c) / 100) / 3"

definition newServerLoad :: "real \<Rightarrow> ServerConfig \<Rightarrow> js_number" where
  "newServerLoad v c = Math_min 100 (js_mul (js_div v (serverCapacity c)) 100)"

definition totalTraffic :: "int \<Rightarrow> real" where
  "totalTraffic ai = real_of_int ai * 2"

definition blockedTraffic :: "int \<Rightarrow> SecurityMeasures \<Rightarrow> real" where
  "blockedTraffic ai s = totalTraffic ai * (real (protectionLevel s) * 0.2)"

text \<open>
  The body of the interval callback: \<open>ts\<close> is \<open>Date.now()\<close>, \<open>r1\<close> and \<open>r2\<close> are its two
  calls of \<open>Math.random()\<close>, in order.
\<close>

definition tick :: "TimerClosure \<Rightarrow> int \<Rightarrow> real \<Rightarrow> real \<Rightarrow> AppState \<Rightarrow> AppState" where
  "tick c ts r1 r2 st =
     (let v = sample (t_attackIntensity c) (t_security c) r1
      in st\<lparr>metrics := slice (-30) (metrics st) @ [\<lparr>mp_timestamp = ts, mp_value = v\<rparr>],
            serverLoad := newServerLoad v (t_serverConfig c),
            maliciousTraffic :=
              totalTraffic (t_attackIntensity c) - blockedTraffic (t_attackIntensity c) (t_security c),
            legitimateTraffic := 50 + r2 * 20\<rparr>)"

text \<open>The ranges of the four range inputs of the server panel and of the intensity slider.\<close>

definition valid_config :: "ServerConfig \<Rightarrow> bool" where
  "valid_config c =
     (1 \<le> cpu c \<and> cpu c \<le> 32 \<and> 1 \<le> ram c \<and> ram c \<le> 128 \<and>
      1 \<le> bandwidth c \<and> bandwidth c \<le> 10000 \<and> 1 \<le> storage c \<and> storage c \<le> 2000)"

definition valid_intensity :: "int \<Rightarrow> bool" where
  "valid_intensity ai = (0 \<le> ai \<and> ai \<le> 100)"

definition unit_draw :: "real \<Rightarrow> bool" where
  "unit_draw r = (0 \<le> r \<and> r < 1)"

section \<open>Traffic particle animator\<close>

definition particleCount :: nat where
  "particleCount = 100"

definition resetParticle ::
  "SecurityMeasures \<Rightarrow> Canvas \<Rightarrow> real \<times> real \<times> real \<Rightarrow> ParticleType option \<Rightarrow> Particle \<Rightarrow> Particle" where
  "resetParticle sec canvas d forceType p =
     (case d of (ry, rs, rt) \<Rightarrow>
        let p1 = p\<lparr>p_x := 0, p_y := ry * height canvas, p_speed := 2 + rs * 3,
                   p_type := (case forceType of
                                Some t \<Rightarrow> t
                              | None \<Rightarrow> if rt > 0.7 then legitimate else attack)\<rparr>;
            level = protectionLevel sec
        in if p_type p1 = legitimate then p1\<lparr>p_color := ''#22c55e''\<rparr>
           else if level \<ge> 4 then p1\<lparr>p_color := ''#ef4444'', p_speed := p_speed p1 * 0.3\<rparr>
           else if level \<ge> 2 then p1\<lparr>p_color := ''#eab308'', p_speed := p_speed p1 * 0.6\<rparr>
           else p1\<lparr>p_color := ''#ef4444''\<rparr>)"

definition freshParticle :: Particle where
  "freshParticle = \<lparr>p_x = 0, p_y = 0, p_speed = 0, p_color = ''#ef4444'', p_type = attack\<rparr>"

text \<open>The initialisation loop of the effect: \<open>particleCount\<close> fresh particles, each reset once.\<close>

definition initParticles :: "SecurityMeasures \<Rightarrow> Canvas \<Rightarrow> Draws \<Rightarrow> Particle list" where
  "initParticles sec canvas d =
     map (\<lambda>i. resetParticle sec canvas (d i) None freshParticle) [0..<particleCount]"

text \<open>
  The second \<open>forEach\<close> of \<open>animate\<close> on one particle, the drawing left out:
  \<open>particle.x += particle.speed\<close>, then the reset past the right edge.
\<close>

definition advance :: "SecurityMeasures \<Rightarrow> Canvas \<Rightarrow> real \<times> real \<times> real \<Rightarrow> Particle \<Rightarrow> Particle" where
  "advance sec canvas d p =
     (let p1 = p\<lparr>p_x := p_x p + p_speed p\<rparr>
      in if p_x p1 > width canvas then resetParticle sec canvas d None p1 else p1)"

definition animate :: "Draws \<Rightarrow> AnimLoop \<Rightarrow> AnimLoop" where
  "animate d l =
     l\<lparr>particles :=
         map (\<lambda>(i, p). advance (a_security l) (a_canvas l) (d i) p)
             (zip [0..<length (particles l)] (particles l))\<rparr>"

section \<open>Effects and events\<close>

text \<open>
  A React effect runs after a render in which one of its dependencies changed: first the
  cleanup the previous run returned, then the body. The metrics effect depends on
  \<open>[isSimulating, attackIntensity, security, serverConfig]\<close>, the animator effect on
  \<open>[isSimulating, security]\<close>.
\<close>

definition metricsCleanup :: "AppState \<Rightarrow> AppState" where
  "metricsCleanup st = st\<lparr>interval := None\<rparr>"

definition metricsEffect :: "AppState \<Rightarrow> AppState" where
  "metricsEffect st =
     (if \<not> isSimulating st then st\<lparr>metrics := []\<rparr>
      else st\<lparr>interval := Some \<lparr>t_security = security st,
                                  t_attackIntensity = attackIntensity st,
                                  t_serverConfig = serverConfig st\<rparr>\<rparr>)"

text \<open>
  The cleanup of the animator effect is \<open>particles = []\<close> on the variable of its own run,
  the head of \<open>animLoops\<close>; \<open>animCleanup\<close> records that the last run returned a cleanup.
\<close>

definition animatorCleanup :: "AppState \<Rightarrow> AppState" where
  "animatorCleanup st =
     (if animCleanup st
      then st\<lparr>animLoops := (case animLoops st of
                               [] \<Rightarrow> []
                             | l # ls \<Rightarrow> l\<lparr>particles := []\<rparr> # ls),
              animCleanup := False\<rparr>
      else st)"

text \<open>
  The body of the animator effect: past its guards it fills the pool and calls \<open>animate()\<close>
  once itself, which advances every particle of the new pool by its speed before the first
  requested frame. The draws of the run are numbered through: the first \<open>particleCount\<close>
  for the initialisation loop, the next ones for the resets of that first \<open>animate()\<close>.
\<close>

definition animatorEffect :: "Draws \<Rightarrow> AppState \<Rightarrow> AppState" where
  "animatorEffect d st =
     (if \<not> isSimulating st then st
      else case canvasRef st of
             None \<Rightarrow> st
           | Some canvas \<Rightarrow>
               if \<not> context2d canvas then st
               else st\<lparr>animLoops :=
                          animate (\<lambda>i. d (particleCount + i))
                            \<lparr>particles = initParticles (security st) canvas d,
                             a_security = security st, a_canvas = canvas\<rparr> # animLoops st,
                        animCleanup := True\<rparr>)"

fun setConfig :: "ConfigKey \<Rightarrow> int \<Rightarrow> ServerConfig \<Rightarrow> ServerConfig" where
  "setConfig Cpu v c = c\<lparr>cpu := v\<rparr>"
| "setConfig Ram v c = c\<lparr>ram := v\<rparr>"
| "setConfig Bandwidth v c = c\<lparr>bandwidth := v\<rparr>"
| "setConfig Storage v c = c\<lparr>storage := v\<rparr>"

fun toggle :: "SecurityKey \<Rightarrow> SecurityMeasures \<Rightarrow> SecurityMeasures" where
  "toggle Fail2ban s = s\<lparr>fail2ban := \<not> fail2ban s\<rparr>"
| "toggle Pfsense s = s\<lparr>pfsense := \<not> pfsense s\<rparr>"
| "toggle Cloudflare s = s\<lparr>cloudflare := \<not> cloudflare s\<rparr>"
| "toggle LoadBalancer s = s\<lparr>loadBalancer := \<not> loadBalancer s\<rparr>"
| "toggle Waf s = s\<lparr>waf := \<not> waf s\<rparr>"

text \<open>
  \<open>setIsSimulating(b)\<close>: a state setter called with the current value changes nothing and
  runs no effect; otherwise both effects run, as \<open>isSimulating\<close> is a dependency of both.
\<close>

definition setIsSimulating :: "bool \<Rightarrow> Draws \<Rightarrow> AppState \<Rightarrow> AppState" where
  "setIsSimulating b d st =
     (if b = isSimulating st then st
      else animatorEffect d (animatorCleanup (metricsEffect (metricsCleanup (st\<lparr>isSimulating := b\<rparr>)))))"

text \<open>
  The events of the running application: the simulation button
  (\<open>setIsSimulating(!isSimulating)\<close>), the range inputs and checkboxes (each builds a new
  object, so the effects that depend on it run), a firing of the interval timer and an
  animation frame, in which every run of the animator effect that is still scheduled
  executes its \<open>animate\<close>.
\<close>

datatype Event =
    ClickSimulation Draws
  | SetServerConfig ConfigKey int
  | ToggleSecurity SecurityKey Draws
  | SetAttackIntensity int
  | Tick int real real
  | Frame "nat \<Rightarrow> Draws"

fun step :: "AppState \<Rightarrow> Event \<Rightarrow> AppState" where
  "step st (ClickSimulation d) = setIsSimulating (\<not> isSimulating st) d st"
| "step st (SetServerConfig k v) =
     metricsEffect (metricsCleanup (st\<lparr>serverConfig := setConfig k v (serverConfig st)\<rparr>))"
| "step st (ToggleSecurity k d) =
     animatorEffect d (animatorCleanup (metricsEffect (metricsCleanup
       (st\<lparr>security := toggle k (security st)\<rparr>))))"
| "step st (SetAttackIntensity n) =
     (if n = attackIntensity st then st
      else metricsEffect (metricsCleanup (st\<lparr>attackIntensity := n\<rparr>)))"
| "step st (Tick ts r1 r2) =
     (case interval st of None \<Rightarrow> st | Some c \<Rightarrow> tick c ts r1 r2 st)"
| "step st (Frame d) =
     st\<lparr>animLoops := map (\<lambda>(j, l). animate (d j) l)
                          (zip [0..<length (animLoops st)] (animLoops st))\<rparr>"

definition run :: "AppState \<Rightarrow> Event list \<Rightarrow> AppState" where
  "run st evs = foldl step st evs"

text \<open>The state after the first render and its two effect runs, none of which starts anything.\<close>

definition initialState :: AppState where
  "initialState =
     \<lparr>serverConfig = \<lparr>cpu = 4, ram = 16, bandwidth = 1000, storage = 500\<rparr>,
      security = \<lparr>fail2ban = False, pfsense = False, cloudflare = False,
                  loadBalancer = False, waf = False\<rparr>,
      isSimulating = False,
      attackIntensity = 50,
      canvasRef = Some \<lparr>width = 400, height = 300, context2d = True\<rparr>,
      metrics = [],
      serverLoad = Finite 0,
      legitimateTraffic = 0,
      maliciousTraffic = 0,
      interval = None,
      animLoops = [],
      animCleanup = False\<rparr>"

text \<open>The number of animation frames that remain requested: one for each run of \<open>animate\<close>.\<close>

definition pendingFrames :: "AppState \<Rightarrow> nat" where
  "pendingFrames st = length (animLoops st)"

section \<open>Properties of the scorer and of the tick\<close>


lemma protectionLevel_sum:
  "protectionLevel s = of_bool (fail2ban s) + of_bool (pfsense s) + of_bool (cloudflare s)
     + of_bool (loadBalancer s) + of_bool (waf s)"
  by (simp add: protectionLevel_def Object_values_def)

lemma protectionLevel_le: "protectionLevel s \<le> 5"
  by (simp add: protectionLevel_sum)

text \<open>
  Claim C4. For every assignment of the five flags, the protection score is the count of
  true flags divided by 5 and multiplied by 100, the protection level is that count and
  lies between 0 and 5, and the score lies between 0 and 100. Both are functions of the
  flags alone.
\<close>

theorem protection_scorer:
  "getProtectionScore s = real (protectionLevel s) / 5 * 100
   \<and> protectionLevel s = of_bool (fail2ban s) + of_bool (pfsense s) + of_bool (cloudflare s)
        + of_bool (loadBalancer s) + of_bool (waf s)
   \<and> protectionLevel s \<le> 5
   \<and> 0 \<le> getProtectionScore s \<and> getProtectionScore s \<le> 100"
proof -
  have "real (protectionLevel s) \<le> 5"
    using protectionLevel_le [of s] by simp
  then show ?thesis
    using protectionLevel_sum [of s] by (simp add: getProtectionScore_def)
qed

lemma randomVariation_range: "unit_draw r \<Longrightarrow> - 10 \<le> randomVariation r \<and> randomVariation r < 10"
  by (simp add: unit_draw_def randomVariation_def)

lemma sample_range: "0 \<le> sample ai s r \<and> sample ai s r \<le> 100"
  by (simp add: sample_def)

lemma slice_neg: "slice (- 30) xs = drop (length xs - 30) xs"
proof -
  have "nat (max (int (length xs) - 30) 0) = length xs - 30"
    by arith
  then show ?thesis
    by (simp add: slice_def Let_def)
qed

lemma last_metrics_tick:
  "last (metrics (tick c ts r1 r2 st))
     = \<lparr>mp_timestamp = ts, mp_value = sample (t_attackIntensity c) (t_security c) r1\<rparr>"
  by (simp add: tick_def Let_def)

text \<open>
  Claim C5. On a tick, \<open>baseLoad\<close> is the attack intensity times
  \<open>1 - protectionLevel * 0.15\<close>, and the value of the point the tick records is
  \<open>baseLoad\<close> plus a jitter, clamped to \<open>[0, 100]\<close>; the jitter is 20 times the first
  random draw of the tick minus 10, a number in \<open>[-10, 10)\<close>. With all five flags and
  intensity 100 the base load is 25; with no flag and intensity 50 it is 50.
\<close>

theorem base_load_and_sample:
  assumes "unit_draw r1"
  shows "baseLoad ai s = real_of_int ai * (1 - real (protectionLevel s) * 0.15)
    \<and> mp_value (last (metrics (tick c ts r1 r2 st)))
        = max 0 (min 100 (baseLoad (t_attackIntensity c) (t_security c) + randomVariation r1))
    \<and> mp_value (last (metrics (tick c ts r1 r2 st)))
        = max 0 (min 100 (real_of_int (t_attackIntensity c)
                            * (1 - real (protectionLevel (t_security c)) * 0.15)
                          + (r1 * 20 - 10)))
    \<and> randomVariation r1 = r1 * 20 - 10
    \<and> - 10 \<le> randomVariation r1 \<and> randomVariation r1 < 10
    \<and> baseLoad 100 \<lparr>fail2ban = True, pfsense = True, cloudflare = True,
                       loadBalancer = True, waf = True\<rparr> = 25
    \<and> baseLoad 50 \<lparr>fail2ban = False, pfsense = False, cloudflare = False,
                      loadBalancer = False, waf = False\<rparr> = 50"
proof -
  have v: "mp_value (last (metrics (tick c ts r1 r2 st)))
      = max 0 (min 100 (baseLoad (t_attackIntensity c) (t_security c) + randomVariation r1))"
    by (simp add: last_metrics_tick sample_def)
  have j: "randomVariation r1 = r1 * 20 - 10"
    by (simp add: randomVariation_def)
  have b: "baseLoad (t_attackIntensity c) (t_security c)
      = real_of_int (t_attackIntensity c) * (1 - real (protectionLevel (t_security c)) * 0.15)"
    by (simp add: baseLoad_def)
  have w: "mp_value (last (metrics (tick c ts r1 r2 st)))
      = max 0 (min 100 (real_of_int (t_attackIntensity c)
                          * (1 - real (protectionLevel (t_security c)) * 0.15)
                        + (r1 * 20 - 10)))"
    unfolding v j b by (rule refl)
  have e: "baseLoad 100 \<lparr>fail2ban = True, pfsense = True, cloudflare = True,
                       loadBalancer = True, waf = True\<rparr> = 25"
      "baseLoad 50 \<lparr>fail2ban = False, pfsense = False, cloudflare = False,
                      loadBalancer = False, waf = False\<rparr> = 50"
    by (simp_all add: baseLoad_def protectionLevel_sum)
  show ?thesis
    using v w j e randomVariation_range [OF assms] by (simp add: baseLoad_def)
qed

lemma serverCapacity_pos:
  "1 \<le> cpu c \<Longrightarrow> 1 \<le> ram c \<Longrightarrow> 1 \<le> bandwidth c \<Longrightarrow> 1201 / 300 \<le> serverCapacity c"
proof -
  assume a: "1 \<le> cpu c" "1 \<le> ram c" "1 \<le> bandwidth c"
  have "1 \<le> real_of_int (cpu c)" "1 \<le> real_of_int (ram c)" "1 \<le> real_of_int (bandwidth c)"
    using a by simp_all
  then show ?thesis by (simp add: serverCapacity_def)
qed

lemma newServerLoad_finite:
  "0 < serverCapacity c \<Longrightarrow> newServerLoad v c = Finite (min 100 (v / serverCapacity c * 100))"
  by (simp add: newServerLoad_def)

lemma sample_eq: "sample ai s r = max 0 (min 100 (baseLoad ai s + randomVariation r))"
  by (simp add: sample_def)

lemma tick_fields:
  "metrics (tick c ts r1 r2 st)
     = slice (- 30) (metrics st)
       @ [\<lparr>mp_timestamp = ts, mp_value = sample (t_attackIntensity c) (t_security c) r1\<rparr>]"
  "serverLoad (tick c ts r1 r2 st)
     = newServerLoad (sample (t_attackIntensity c) (t_security c) r1) (t_serverConfig c)"
  "maliciousTraffic (tick c ts r1 r2 st)
     = totalTraffic (t_attackIntensity c) - blockedTraffic (t_attackIntensity c) (t_security c)"
  "legitimateTraffic (tick c ts r1 r2 st) = 50 + r2 * 20"
  "isSimulating (tick c ts r1 r2 st) = isSimulating st"
  "interval (tick c ts r1 r2 st) = interval st"
  "animLoops (tick c ts r1 r2 st) = animLoops st"
  by (simp_all add: tick_def Let_def)

text \<open>
  Claim C6. On a tick with a configuration in the ranges of its inputs, the server capacity
  is \<open>(cpu * 10 + ram * 2 + bandwidth / 100) / 3\<close> and the new server load is the recorded
  sample divided by the capacity, times 100, clamped to \<open>[0, 100]\<close>. The source takes
  only the minimum with 100; the lower clamp changes nothing, as the sample is never negative
  and the capacity is positive. The configuration 4, 16, 1000 has capacity \<open>82 / 3\<close>.
\<close>

theorem server_capacity_and_load:
  assumes "valid_config (t_serverConfig c)"
  shows "serverCapacity (t_serverConfig c)
      = (real_of_int (cpu (t_serverConfig c)) * 10 + real_of_int (ram (t_serverConfig c)) * 2
         + real_of_int (bandwidth (t_serverConfig c)) / 100) / 3
    \<and> serverLoad (tick c ts r1 r2 st)
      = Finite (max 0 (min 100 (mp_value (last (metrics (tick c ts r1 r2 st)))
                                 / serverCapacity (t_serverConfig c) * 100)))
    \<and> serverCapacity \<lparr>cpu = 4, ram = 16, bandwidth = 1000, storage = 500\<rparr> = 82 / 3"
proof -
  let ?v = "sample (t_attackIntensity c) (t_security c) r1"
  let ?cap = "serverCapacity (t_serverConfig c)"
  have cap: "0 < ?cap"
    using serverCapacity_pos [of "t_serverConfig c"] assms by (simp add: valid_config_def)
  have "0 \<le> ?v" by (simp add: sample_range)
  with cap have nonneg: "0 \<le> ?v / ?cap * 100" by simp
  have "serverLoad (tick c ts r1 r2 st) = Finite (min 100 (?v / ?cap * 100))"
    using cap by (simp add: tick_fields newServerLoad_finite)
  also have "min 100 (?v / ?cap * 100) = max 0 (min 100 (?v / ?cap * 100))"
    using nonneg by simp
  finally have load: "serverLoad (tick c ts r1 r2 st) = Finite (max 0 (min 100 (?v / ?cap * 100)))" .
  have ex: "serverCapacity \<lparr>cpu = 4, ram = 16, bandwidth = 1000, storage = 500\<rparr> = 82 / 3"
    by (simp add: serverCapacity_def)
  show ?thesis
    using load ex by (simp add: last_metrics_tick serverCapacity_def)
qed

text \<open>
  Claim C9. With \<open>cpu\<close>, \<open>ram\<close> and \<open>bandwidth\<close> at least 1 the server capacity is
  strictly positive, so the division of the tick has a finite result and the server load the
  tick stores is a finite number, neither \<open>Infinity\<close> nor \<open>NaN\<close>.
\<close>

theorem capacity_positive:
  assumes "1 \<le> cpu cfg" and "1 \<le> ram cfg" and "1 \<le> bandwidth cfg"
  shows "0 < serverCapacity cfg
    \<and> js_div v (serverCapacity cfg) = Finite (v / serverCapacity cfg)
    \<and> newServerLoad v cfg = Finite (min 100 (v / serverCapacity cfg * 100))
    \<and> serverLoad (tick \<lparr>t_security = sec, t_attackIntensity = ai, t_serverConfig = cfg\<rparr>
                       ts r1 r2 st)
        = Finite (min 100 (sample ai sec r1 / serverCapacity cfg * 100))"
proof -
  have cap: "0 < serverCapacity cfg"
    using serverCapacity_pos [OF assms] by simp
  then show ?thesis
    by (simp add: tick_fields newServerLoad_finite)
qed

text \<open>
  Claim C3. On a tick the malicious traffic is \<open>totalTraffic - blockedTraffic\<close>, with
  \<open>totalTraffic = attackIntensity * 2\<close> and
  \<open>blockedTraffic = totalTraffic * (protectionLevel * 0.2)\<close>; the legitimate traffic is 50
  plus 20 times the second random draw of the tick, a number in \<open>[0, 20)\<close>, whatever the
  attack intensity, the security measures, the configuration and the state are.
\<close>

theorem traffic_split:
  assumes "unit_draw r2"
  shows "maliciousTraffic (tick c ts r1 r2 st)
      = totalTraffic (t_attackIntensity c) - blockedTraffic (t_attackIntensity c) (t_security c)
    \<and> totalTraffic (t_attackIntensity c) = real_of_int (t_attackIntensity c) * 2
    \<and> blockedTraffic (t_attackIntensity c) (t_security c)
      = totalTraffic (t_attackIntensity c) * (real (protectionLevel (t_security c)) * 0.2)
    \<and> legitimateTraffic (tick c ts r1 r2 st) = 50 + r2 * 20
    \<and> 0 \<le> r2 * 20 \<and> r2 * 20 < 20
    \<and> legitimateTraffic (tick c' ts' r1' r2 st') = legitimateTraffic (tick c ts r1 r2 st)"
  using assms by (simp add: tick_fields totalTraffic_def blockedTraffic_def unit_draw_def)

theorem base_load_and_sample_witness:
  "unit_draw (3 / 4)
   \<and> randomVariation (3 / 4) = 5
   \<and> mp_value (last (metrics (tick \<lparr>t_security = security initialState, t_attackIntensity = 50,
                                     t_serverConfig = serverConfig initialState\<rparr>
                                    0 (3 / 4) (1 / 2) initialState))) = 55"
proof -
  have h: "unit_draw (3 / 4)"
    by (simp add: unit_draw_def)
  show ?thesis
    using h base_load_and_sample [OF h, of 50 "security initialState"
        "\<lparr>t_security = security initialState, t_attackIntensity = 50,
          t_serverConfig = serverConfig initialState\<rparr>" 0 "1 / 2" initialState]
    by (simp add: initialState_def protectionLevel_sum)
qed

theorem server_capacity_and_load_witness:
  "valid_config (serverConfig initialState)
   \<and> serverLoad (tick \<lparr>t_security = security initialState, t_attackIntensity = 10,
                        t_serverConfig = serverConfig initialState\<rparr>
                       0 (1 / 2) (1 / 2) initialState) = Finite (1500 / 41)"
proof -
  have h: "valid_config (t_serverConfig \<lparr>t_security = security initialState, t_attackIntensity = 10,
                        t_serverConfig = serverConfig initialState\<rparr>)"
    by (simp add: valid_config_def initialState_def)
  show ?thesis
    using h server_capacity_and_load [OF h, of 0 "1 / 2" "1 / 2" initialState]
    by (simp add: initialState_def last_metrics_tick sample_def baseLoad_def
        randomVariation_def protectionLevel_sum serverCapacity_def)
qed

theorem capacity_positive_witness:
  "1 \<le> cpu \<lparr>cpu = 1, ram = 1, bandwidth = 1, storage = 1\<rparr>
   \<and> serverCapacity \<lparr>cpu = 1, ram = 1, bandwidth = 1, storage = 1\<rparr> = 1201 / 300
   \<and> newServerLoad 1 \<lparr>cpu = 1, ram = 1, bandwidth = 1, storage = 1\<rparr> = Finite (30000 / 1201)"
  using capacity_positive [of "\<lparr>cpu = 1, ram = 1, bandwidth = 1, storage = 1\<rparr>" 1]
  by (simp add: serverCapacity_def)

theorem traffic_split_witness:
  "unit_draw (1 / 4)
   \<and> maliciousTraffic (tick \<lparr>t_security = security initialState, t_attackIntensity = 50,
                              t_serverConfig = serverConfig initialState\<rparr>
                             0 (1 / 2) (1 / 4) initialState) = 100
   \<and> legitimateTraffic (tick \<lparr>t_security = security initialState, t_attackIntensity = 50,
                              t_serverConfig = serverConfig initialState\<rparr>
                             0 (1 / 2) (1 / 4) initialState) = 55"
proof -
  have h: "unit_draw (1 / 4)"
    by (simp add: unit_draw_def)
  show ?thesis
    using h traffic_split [OF h, of "\<lparr>t_security = security initialState, t_attackIntensity = 50,
                              t_serverConfig = serverConfig initialState\<rparr>" 0 "1 / 2" initialState]
    by (simp add: initialState_def totalTraffic_def protectionLevel_sum)
qed

section \<open>Bounds of the values of a tick\<close>


lemmas effect_defs =
  setIsSimulating_def metricsEffect_def metricsCleanup_def animatorEffect_def
  animatorCleanup_def

lemma step_Tick_Some: "interval st = Some c \<Longrightarrow> step st (Tick ts r1 r2) = tick c ts r1 r2 st"
  by simp

lemma blocked_le_total:
  assumes "0 \<le> ai"
  shows "0 \<le> totalTraffic ai - blockedTraffic ai s"
    and "totalTraffic ai - blockedTraffic ai s \<le> totalTraffic ai"
proof -
  have l: "real (protectionLevel s) \<le> 5"
    using protectionLevel_le [of s] by simp
  have eq: "totalTraffic ai - blockedTraffic ai s
      = totalTraffic ai * (1 - real (protectionLevel s) * 0.2)"
    by (simp add: blockedTraffic_def algebra_simps)
  have t: "0 \<le> totalTraffic ai"
    using assms by (simp add: totalTraffic_def)
  have f: "0 \<le> 1 - real (protectionLevel s) * 0.2" "1 - real (protectionLevel s) * 0.2 \<le> 1"
    using l by simp_all
  show "0 \<le> totalTraffic ai - blockedTraffic ai s"
    unfolding eq using t f by simp
  show "totalTraffic ai - blockedTraffic ai s \<le> totalTraffic ai"
    unfolding eq using t f by (simp add: mult_left_le)
qed

text \<open>
  Claim C1, amended. On a tick of the running simulation, with the configuration and the
  attack intensity in the ranges of their inputs and both random draws in \<open>[0, 1)\<close>, the
  server load is a finite number in \<open>[0, 100]\<close>, the legitimate traffic and the value of the
  appended point lie in \<open>[0, 100]\<close>, and the malicious traffic lies in \<open>[0, 200]\<close>: it is
  not clamped.
\<close>

theorem tick_percentages_bounded:
  assumes "interval st = Some c"
    and "valid_config (t_serverConfig c)"
    and "valid_intensity (t_attackIntensity c)"
    and "unit_draw r1" and "unit_draw r2"
  shows "(\<exists>x. serverLoad (step st (Tick ts r1 r2)) = Finite x \<and> 0 \<le> x \<and> x \<le> 100)
    \<and> 0 \<le> legitimateTraffic (step st (Tick ts r1 r2))
    \<and> legitimateTraffic (step st (Tick ts r1 r2)) \<le> 100
    \<and> 0 \<le> mp_value (last (metrics (step st (Tick ts r1 r2))))
    \<and> mp_value (last (metrics (step st (Tick ts r1 r2)))) \<le> 100
    \<and> 0 \<le> maliciousTraffic (step st (Tick ts r1 r2))
    \<and> maliciousTraffic (step st (Tick ts r1 r2)) \<le> 200"
proof -
  let ?v = "sample (t_attackIntensity c) (t_security c) r1"
  let ?cap = "serverCapacity (t_serverConfig c)"
  have st: "step st (Tick ts r1 r2) = tick c ts r1 r2 st"
    using assms(1) by simp
  have cap: "0 < ?cap"
    using serverCapacity_pos [of "t_serverConfig c"] assms(2) by (simp add: valid_config_def)
  have v: "0 \<le> ?v" "?v \<le> 100"
    by (simp_all add: sample_range)
  have load: "serverLoad (tick c ts r1 r2 st) = Finite (min 100 (?v / ?cap * 100))"
    using cap by (simp add: tick_fields newServerLoad_finite)
  have "0 \<le> ?v / ?cap * 100"
    using cap v by simp
  then have a: "\<exists>x. serverLoad (tick c ts r1 r2 st) = Finite x \<and> 0 \<le> x \<and> x \<le> 100"
    unfolding load by simp
  have b: "0 \<le> legitimateTraffic (tick c ts r1 r2 st)"
      "legitimateTraffic (tick c ts r1 r2 st) \<le> 100"
    using assms(5) by (simp_all add: tick_fields unit_draw_def)
  have ai: "0 \<le> t_attackIntensity c" "real_of_int (t_attackIntensity c) \<le> 100"
    using assms(3) by (simp_all add: valid_intensity_def)
  have "totalTraffic (t_attackIntensity c) \<le> 200"
    using ai by (simp add: totalTraffic_def)
  then have d: "0 \<le> maliciousTraffic (tick c ts r1 r2 st)"
      "maliciousTraffic (tick c ts r1 r2 st) \<le> 200"
    using blocked_le_total [OF ai(1), of "t_security c"] by (simp_all add: tick_fields)
  show ?thesis
    unfolding st using a b v d by (simp add: last_metrics_tick)
qed

lemma run_Nil: "run st [] = st"
  by (simp add: run_def)

lemma run_Cons: "run st (e # evs) = run (step st e) evs"
  by (simp add: run_def)

lemma run_snoc: "run st (evs @ [e]) = step (run st evs) e"
  by (simp add: run_def)

text \<open>
  Claim C1 as stated fails: with the intensity slider at 100 and no security measure, the
  first tick stores a malicious traffic of 200.
\<close>

theorem tick_percentages_counterexample:
  "valid_config (serverConfig initialState) \<and> valid_intensity 100 \<and> unit_draw (1 / 2)
   \<and> interval (run initialState
         [SetAttackIntensity 100, ClickSimulation (\<lambda>i. (1 / 2, 1 / 2, 1 / 2))])
       = Some \<lparr>t_security = security initialState, t_attackIntensity = 100,
               t_serverConfig = serverConfig initialState\<rparr>
   \<and> maliciousTraffic (run initialState
         [SetAttackIntensity 100, ClickSimulation (\<lambda>i. (1 / 2, 1 / 2, 1 / 2)),
          Tick 0 (1 / 2) (1 / 2)]) = 200
   \<and> \<not> maliciousTraffic (run initialState
         [SetAttackIntensity 100, ClickSimulation (\<lambda>i. (1 / 2, 1 / 2, 1 / 2)),
          Tick 0 (1 / 2) (1 / 2)]) \<le> 100"
  by (simp add: run_Nil run_Cons effect_defs initialState_def tick_def Let_def
      valid_config_def valid_intensity_def unit_draw_def totalTraffic_def blockedTraffic_def
      protectionLevel_sum)

theorem tick_percentages_bounded_witness:
  "interval (run initialState [ClickSimulation (\<lambda>i. (1 / 2, 1 / 2, 1 / 2))])
       = Some \<lparr>t_security = security initialState, t_attackIntensity = 50,
               t_serverConfig = serverConfig initialState\<rparr>
   \<and> valid_config (serverConfig initialState) \<and> valid_intensity 50 \<and> unit_draw (1 / 2)
   \<and> maliciousTraffic (step (run initialState [ClickSimulation (\<lambda>i. (1 / 2, 1 / 2, 1 / 2))])
        (Tick 0 (1 / 2) (1 / 2))) \<le> 200"
proof -
  let ?c = "\<lparr>t_security = security initialState, t_attackIntensity = 50,
               t_serverConfig = serverConfig initialState\<rparr>"
  let ?st = "run initialState [ClickSimulation (\<lambda>i. (1 / 2, 1 / 2, 1 / 2))]"
  have h1: "interval ?st = Some ?c"
    by (simp add: run_Nil run_Cons effect_defs initialState_def)
  have h2: "valid_config (t_serverConfig ?c)"
    by (simp add: valid_config_def initialState_def)
  have h3: "valid_intensity (t_attackIntensity ?c)"
    by (simp add: valid_intensity_def)
  have h4: "unit_draw (1 / 2)"
    by (simp add: unit_draw_def)
  from tick_percentages_bounded [OF h1 h2 h3 h4 h4, of 0]
  have "maliciousTraffic (step ?st (Tick 0 (1 / 2) (1 / 2))) \<le> 200"
    by blast
  with h1 h2 h3 h4 show ?thesis
    by simp
qed

section \<open>The stop transition\<close>


lemma setIsSimulating_False:
  assumes "isSimulating st"
  shows "setIsSimulating False d st
    = animatorCleanup (st\<lparr>isSimulating := False, interval := None, metrics := []\<rparr>)"
  using assms by (simp add: effect_defs)

lemma animatorCleanup_fields:
  "serverConfig (animatorCleanup st) = serverConfig st"
  "security (animatorCleanup st) = security st"
  "isSimulating (animatorCleanup st) = isSimulating st"
  "attackIntensity (animatorCleanup st) = attackIntensity st"
  "canvasRef (animatorCleanup st) = canvasRef st"
  "metrics (animatorCleanup st) = metrics st"
  "serverLoad (animatorCleanup st) = serverLoad st"
  "legitimateTraffic (animatorCleanup st) = legitimateTraffic st"
  "maliciousTraffic (animatorCleanup st) = maliciousTraffic st"
  "interval (animatorCleanup st) = interval st"
  "length (animLoops (animatorCleanup st)) = length (animLoops st)"
  "animCleanup (animatorCleanup st) = False"
  by (simp_all add: animatorCleanup_def split: list.splits)

lemma animatorEffect_fields:
  "serverConfig (animatorEffect d st) = serverConfig st"
  "security (animatorEffect d st) = security st"
  "isSimulating (animatorEffect d st) = isSimulating st"
  "attackIntensity (animatorEffect d st) = attackIntensity st"
  "canvasRef (animatorEffect d st) = canvasRef st"
  "metrics (animatorEffect d st) = metrics st"
  "serverLoad (animatorEffect d st) = serverLoad st"
  "legitimateTraffic (animatorEffect d st) = legitimateTraffic st"
  "maliciousTraffic (animatorEffect d st) = maliciousTraffic st"
  "interval (animatorEffect d st) = interval st"
  by (simp_all add: animatorEffect_def split: option.splits)

lemma animatorEffect_length:
  "length (animLoops st) \<le> length (animLoops (animatorEffect d st))"
  by (simp add: animatorEffect_def split: option.splits)

text \<open>
  Claim C2, amended. Stopping a running simulation (the button sets \<open>isSimulating\<close> to
  false) clears the metric history and the interval timer, and leaves the server load, the
  legitimate traffic and the malicious traffic at the values of the last tick.
\<close>

theorem stop_clears_history_only:
  assumes "isSimulating st"
  shows "step st (ClickSimulation d) = setIsSimulating False d st
    \<and> isSimulating (setIsSimulating False d st) = False
    \<and> metrics (setIsSimulating False d st) = []
    \<and> interval (setIsSimulating False d st) = None
    \<and> serverLoad (setIsSimulating False d st) = serverLoad st
    \<and> legitimateTraffic (setIsSimulating False d st) = legitimateTraffic st
    \<and> maliciousTraffic (setIsSimulating False d st) = maliciousTraffic st"
  using assms by (simp add: setIsSimulating_False animatorCleanup_fields)

text \<open>
  Claim C2 as stated fails: after start, one tick and stop, the history is empty and the
  three derived percentages are 100, 60 and 100, not zero.
\<close>

theorem stop_reset_counterexample:
  "isSimulating (run initialState
      [ClickSimulation (\<lambda>i. (1 / 2, 1 / 2, 1 / 2)), Tick 0 (1 / 2) (1 / 2)])
   \<and> isSimulating (run initialState
        [ClickSimulation (\<lambda>i. (1 / 2, 1 / 2, 1 / 2)), Tick 0 (1 / 2) (1 / 2),
         ClickSimulation (\<lambda>i. (1 / 2, 1 / 2, 1 / 2))]) = False
   \<and> metrics (run initialState
        [ClickSimulation (\<lambda>i. (1 / 2, 1 / 2, 1 / 2)), Tick 0 (1 / 2) (1 / 2),
         ClickSimulation (\<lambda>i. (1 / 2, 1 / 2, 1 / 2))]) = []
   \<and> serverLoad (run initialState
        [ClickSimulation (\<lambda>i. (1 / 2, 1 / 2, 1 / 2)), Tick 0 (1 / 2) (1 / 2),
         ClickSimulation (\<lambda>i. (1 / 2, 1 / 2, 1 / 2))]) = Finite 100
   \<and> legitimateTraffic (run initialState
        [ClickSimulation (\<lambda>i. (1 / 2, 1 / 2, 1 / 2)), Tick 0 (1 / 2) (1 / 2),
         ClickSimulation (\<lambda>i. (1 / 2, 1 / 2, 1 / 2))]) = 60
   \<and> maliciousTraffic (run initialState
        [ClickSimulation (\<lambda>i. (1 / 2, 1 / 2, 1 / 2)), Tick 0 (1 / 2) (1 / 2),
         ClickSimulation (\<lambda>i. (1 / 2, 1 / 2, 1 / 2))]) = 100"
  by (simp add: run_Nil run_Cons effect_defs initialState_def tick_def Let_def
      totalTraffic_def blockedTraffic_def protectionLevel_sum newServerLoad_def
      serverCapacity_def sample_def baseLoad_def randomVariation_def)

theorem stop_clears_history_only_witness:
  "isSimulating (run initialState
      [ClickSimulation (\<lambda>i. (1 / 2, 1 / 2, 1 / 2)), Tick 0 (1 / 2) (1 / 2)])
   \<and> maliciousTraffic (setIsSimulating False (\<lambda>i. (1 / 2, 1 / 2, 1 / 2))
        (run initialState
          [ClickSimulation (\<lambda>i. (1 / 2, 1 / 2, 1 / 2)), Tick 0 (1 / 2) (1 / 2)])) = 100
   \<and> metrics (setIsSimulating False (\<lambda>i. (1 / 2, 1 / 2, 1 / 2))
        (run initialState
          [ClickSimulation (\<lambda>i. (1 / 2, 1 / 2, 1 / 2)), Tick 0 (1 / 2) (1 / 2)])) = []"
proof -
  let ?st = "run initialState
      [ClickSimulation (\<lambda>i. (1 / 2, 1 / 2, 1 / 2)), Tick 0 (1 / 2) (1 / 2)]"
  have h: "isSimulating ?st"
    by (simp add: run_Nil run_Cons effect_defs initialState_def tick_def Let_def)
  have m: "maliciousTraffic ?st = 100"
    by (simp add: run_Nil run_Cons effect_defs initialState_def tick_def Let_def
        totalTraffic_def blockedTraffic_def protectionLevel_sum)
  show ?thesis
    using h m stop_clears_history_only [OF h, of "\<lambda>i. (1 / 2, 1 / 2, 1 / 2)"]
    by simp
qed

section \<open>The window of the metric history\<close>


lemma run_invariant:
  assumes "P st" and "\<And>s e. P s \<Longrightarrow> P (step s e)"
  shows "P (run st evs)"
  using assms(1)
proof (induction evs arbitrary: st)
  case Nil
  then show ?case by (simp add: run_Nil)
next
  case (Cons e evs)
  then show ?case by (simp add: run_Cons assms(2))
qed

lemma length_slice: "length (slice (- 30) xs) \<le> 30"
  by (simp add: slice_neg)

lemma metricsEffect_length: "length (metrics (metricsEffect st)) \<le> length (metrics st)"
  by (simp add: metricsEffect_def)

lemma step_window:
  assumes "length (metrics st) \<le> 31"
  shows "length (metrics (step st e)) \<le> 31"
proof (cases e)
  case (ClickSimulation d)
  then show ?thesis
    using assms
    by (simp add: setIsSimulating_def animatorEffect_fields animatorCleanup_fields
        metricsEffect_def metricsCleanup_def)
next
  case (SetServerConfig k v)
  then show ?thesis
    using assms by (simp add: metricsEffect_def metricsCleanup_def)
next
  case (ToggleSecurity k d)
  then show ?thesis
    using assms
    by (simp add: metricsEffect_def metricsCleanup_def animatorEffect_fields
        animatorCleanup_fields)
next
  case (SetAttackIntensity n)
  then show ?thesis
    using assms by (simp add: metricsEffect_def metricsCleanup_def)
next
  case (Tick ts r1 r2)
  then show ?thesis
    using assms by (simp add: tick_fields length_slice split: option.splits)
next
  case (Frame d)
  then show ?thesis
    using assms by simp
qed

lemma run_window: "length (metrics (run initialState evs)) \<le> 31"
proof (rule run_invariant [where P = "\<lambda>s. length (metrics s) \<le> 31"])
  show "length (metrics initialState) \<le> 31"
    by (simp add: initialState_def)
  show "\<And>s e. length (metrics s) \<le> 31 \<Longrightarrow> length (metrics (step s e)) \<le> 31"
    by (rule step_window)
qed

text \<open>
  Claim C7. A tick of the running simulation keeps the last 30 points of the history, in
  their order, and appends exactly one new point: the result has at most 31 points, its
  points before the last are a suffix of the old history, and all of the old history when
  that had at most 30 points. In every state reachable from the initial one, whatever the
  events, the history has at most 31 points.
\<close>

theorem metric_history_window:
  assumes "interval st = Some c"
  shows "metrics (step st (Tick ts r1 r2))
      = drop (length (metrics st) - 30) (metrics st)
        @ [\<lparr>mp_timestamp = ts, mp_value = sample (t_attackIntensity c) (t_security c) r1\<rparr>]
    \<and> length (metrics (step st (Tick ts r1 r2))) = min (length (metrics st)) 30 + 1
    \<and> length (metrics (step st (Tick ts r1 r2))) \<le> 31
    \<and> suffix (butlast (metrics (step st (Tick ts r1 r2)))) (metrics st)
    \<and> (length (metrics st) \<le> 30 \<longrightarrow> butlast (metrics (step st (Tick ts r1 r2))) = metrics st)
    \<and> length (metrics (run initialState evs)) \<le> 31"
proof -
  have m: "metrics (step st (Tick ts r1 r2))
      = drop (length (metrics st) - 30) (metrics st)
        @ [\<lparr>mp_timestamp = ts, mp_value = sample (t_attackIntensity c) (t_security c) r1\<rparr>]"
    using assms by (simp add: tick_fields slice_neg)
  have l: "length (metrics (step st (Tick ts r1 r2))) = min (length (metrics st)) 30 + 1"
    unfolding m by (simp add: min_def)
  have s: "suffix (butlast (metrics (step st (Tick ts r1 r2)))) (metrics st)"
    unfolding m by (simp add: suffix_drop)
  show ?thesis
    using m l s run_window [of evs] by simp
qed

theorem metric_history_window_witness:
  "interval (run initialState [ClickSimulation (\<lambda>i. (1 / 2, 1 / 2, 1 / 2))])
     = Some \<lparr>t_security = security initialState, t_attackIntensity = 50,
             t_serverConfig = serverConfig initialState\<rparr>
   \<and> metrics (step (run initialState [ClickSimulation (\<lambda>i. (1 / 2, 1 / 2, 1 / 2))])
        (Tick 7 (1 / 2) (1 / 2))) = [\<lparr>mp_timestamp = 7, mp_value = 50\<rparr>]"
proof -
  let ?c = "\<lparr>t_security = security initialState, t_attackIntensity = 50,
             t_serverConfig = serverConfig initialState\<rparr>"
  let ?st = "run initialState [ClickSimulation (\<lambda>i. (1 / 2, 1 / 2, 1 / 2))]"
  have h: "interval ?st = Some ?c"
    by (simp add: run_Nil run_Cons effect_defs initialState_def)
  have e: "metrics ?st = []"
    by (simp add: run_Nil run_Cons effect_defs initialState_def)
  have v: "sample 50 (security initialState) (1 / 2) = 50"
    by (simp add: sample_def baseLoad_def randomVariation_def protectionLevel_sum
        initialState_def)
  from metric_history_window [OF h, of 7 "1 / 2" "1 / 2" "[]"]
  have "metrics (step ?st (Tick 7 (1 / 2) (1 / 2)))
      = drop (length (metrics ?st) - 30) (metrics ?st)
        @ [\<lparr>mp_timestamp = 7, mp_value = sample (t_attackIntensity ?c) (t_security ?c) (1 / 2)\<rparr>]"
    by blast
  then have "metrics (step ?st (Tick 7 (1 / 2) (1 / 2))) = [\<lparr>mp_timestamp = 7, mp_value = 50\<rparr>]"
    using e v by simp
  with h show ?thesis
    by simp
qed

lemma timer_closure_step:
  assumes "case interval st of
             None \<Rightarrow> \<not> isSimulating st
           | Some c \<Rightarrow> isSimulating st
               \<and> c = \<lparr>t_security = security st, t_attackIntensity = attackIntensity st,
                       t_serverConfig = serverConfig st\<rparr>"
  shows "case interval (step st e) of
             None \<Rightarrow> \<not> isSimulating (step st e)
           | Some c \<Rightarrow> isSimulating (step st e)
               \<and> c = \<lparr>t_security = security (step st e),
                       t_attackIntensity = attackIntensity (step st e),
                       t_serverConfig = serverConfig (step st e)\<rparr>"
proof (cases e)
  case (ClickSimulation d)
  then show ?thesis
    using assms
    by (simp add: setIsSimulating_def animatorEffect_fields animatorCleanup_fields
        metricsEffect_def metricsCleanup_def)
next
  case (SetServerConfig k v)
  then show ?thesis
    using assms by (auto simp: metricsEffect_def metricsCleanup_def split: option.splits)
next
  case (ToggleSecurity k d)
  then show ?thesis
    using assms
    by (auto simp: animatorEffect_fields animatorCleanup_fields metricsEffect_def
        metricsCleanup_def split: option.splits)
next
  case (SetAttackIntensity n)
  then show ?thesis
    using assms by (auto simp: metricsEffect_def metricsCleanup_def split: option.splits)
next
  case (Tick ts r1 r2)
  then show ?thesis
    using assms by (auto simp: tick_def Let_def split: option.splits)
next
  case (Frame d)
  then show ?thesis
    using assms by (auto split: option.splits)
qed

lemma timer_closure_current:
  "case interval (run initialState evs) of
     None \<Rightarrow> \<not> isSimulating (run initialState evs)
   | Some c \<Rightarrow> isSimulating (run initialState evs)
       \<and> c = \<lparr>t_security = security (run initialState evs),
               t_attackIntensity = attackIntensity (run initialState evs),
               t_serverConfig = serverConfig (run initialState evs)\<rparr>"
proof (rule run_invariant [where P = "\<lambda>s. case interval s of
     None \<Rightarrow> \<not> isSimulating s
   | Some c \<Rightarrow> isSimulating s
       \<and> c = \<lparr>t_security = security s, t_attackIntensity = attackIntensity s,
               t_serverConfig = serverConfig s\<rparr>"])
  show "case interval initialState of
     None \<Rightarrow> \<not> isSimulating initialState
   | Some c \<Rightarrow> isSimulating initialState
       \<and> c = \<lparr>t_security = security initialState,
               t_attackIntensity = attackIntensity initialState,
               t_serverConfig = serverConfig initialState\<rparr>"
    by (simp add: initialState_def)
qed (rule timer_closure_step)

section \<open>Stopping twice, and what stays scheduled\<close>


lemma metrics_effect_anim:
  "animLoops (metricsEffect st) = animLoops st"
  "animLoops (metricsCleanup st) = animLoops st"
  "animCleanup (metricsEffect st) = animCleanup st"
  "animCleanup (metricsCleanup st) = animCleanup st"
  "isSimulating (metricsEffect st) = isSimulating st"
  "isSimulating (metricsCleanup st) = isSimulating st"
  "canvasRef (metricsEffect st) = canvasRef st"
  "canvasRef (metricsCleanup st) = canvasRef st"
  "security (metricsEffect st) = security st"
  "security (metricsCleanup st) = security st"
  by (simp_all add: metricsEffect_def metricsCleanup_def)

lemma effects_length:
  "length (animLoops s)
     \<le> length (animLoops (animatorEffect d (animatorCleanup (metricsEffect (metricsCleanup s)))))"
proof -
  have "length (animLoops s)
      = length (animLoops (animatorCleanup (metricsEffect (metricsCleanup s))))"
    by (simp add: animatorCleanup_fields metrics_effect_anim)
  also have "\<dots> \<le> length (animLoops (animatorEffect d
      (animatorCleanup (metricsEffect (metricsCleanup s)))))"
    by (rule animatorEffect_length)
  finally show ?thesis .
qed

lemma pendingFrames_step: "pendingFrames st \<le> pendingFrames (step st e)"
proof (cases e)
  case (ClickSimulation d)
  then show ?thesis
    using effects_length [of "st\<lparr>isSimulating := \<not> isSimulating st\<rparr>" d]
    by (simp add: pendingFrames_def setIsSimulating_def)
next
  case (SetServerConfig k v)
  then show ?thesis
    by (simp add: pendingFrames_def metrics_effect_anim)
next
  case (ToggleSecurity k d)
  then show ?thesis
    using effects_length [of "st\<lparr>security := toggle k (security st)\<rparr>" d]
    by (simp add: pendingFrames_def)
next
  case (SetAttackIntensity n)
  then show ?thesis
    by (simp add: pendingFrames_def metrics_effect_anim)
next
  case (Tick ts r1 r2)
  then show ?thesis
    by (simp add: pendingFrames_def tick_fields split: option.splits)
next
  case (Frame d)
  then show ?thesis
    by (simp add: pendingFrames_def)
qed

lemma stop_pendingFrames: "pendingFrames (setIsSimulating False d st) = pendingFrames st"
  by (simp add: pendingFrames_def setIsSimulating_def animatorEffect_def animatorCleanup_fields
      metrics_effect_anim)

lemma stop_idempotent:
  "setIsSimulating False d' (setIsSimulating False d st) = setIsSimulating False d st"
proof -
  have "isSimulating (setIsSimulating False d st) = False"
    by (simp add: setIsSimulating_def animatorEffect_fields animatorCleanup_fields
        metricsEffect_def metricsCleanup_def)
  then show ?thesis
    by (simp add: setIsSimulating_def [of False d'])
qed

text \<open>
  Claim C10 on the code. After the simulation is started and stopped, it is not simulating,
  the history is empty and no interval timer is set, and setting \<open>isSimulating\<close> to false
  once more changes nothing. One animation frame is still requested, though, and still is
  after it has run: the cleanup of the animator effect empties \<open>particles\<close> and cancels
  nothing, and \<open>animate\<close> requests its next frame unconditionally.
\<close>

theorem stop_keeps_animation_frame:
  "isSimulating (run initialState
      [ClickSimulation (\<lambda>i. (1 / 2, 1 / 2, 1 / 2)), ClickSimulation (\<lambda>i. (1 / 2, 1 / 2, 1 / 2))])
     = False
   \<and> metrics (run initialState
      [ClickSimulation (\<lambda>i. (1 / 2, 1 / 2, 1 / 2)), ClickSimulation (\<lambda>i. (1 / 2, 1 / 2, 1 / 2))])
     = []
   \<and> interval (run initialState
      [ClickSimulation (\<lambda>i. (1 / 2, 1 / 2, 1 / 2)), ClickSimulation (\<lambda>i. (1 / 2, 1 / 2, 1 / 2))])
     = None
   \<and> setIsSimulating False (\<lambda>i. (1 / 2, 1 / 2, 1 / 2)) (run initialState
      [ClickSimulation (\<lambda>i. (1 / 2, 1 / 2, 1 / 2)), ClickSimulation (\<lambda>i. (1 / 2, 1 / 2, 1 / 2))])
     = run initialState
      [ClickSimulation (\<lambda>i. (1 / 2, 1 / 2, 1 / 2)), ClickSimulation (\<lambda>i. (1 / 2, 1 / 2, 1 / 2))]
   \<and> pendingFrames (run initialState
      [ClickSimulation (\<lambda>i. (1 / 2, 1 / 2, 1 / 2)), ClickSimulation (\<lambda>i. (1 / 2, 1 / 2, 1 / 2))])
     = 1
   \<and> pendingFrames (step (run initialState
      [ClickSimulation (\<lambda>i. (1 / 2, 1 / 2, 1 / 2)), ClickSimulation (\<lambda>i. (1 / 2, 1 / 2, 1 / 2))])
        (Frame (\<lambda>j i. (1 / 2, 1 / 2, 1 / 2))))
     = 1"
  by (simp add: run_Nil run_Cons effect_defs initialState_def pendingFrames_def)

section \<open>Particle reset and changes of protection\<close>


lemma length_initParticles: "length (initParticles sec canvas d) = particleCount"
  by (simp add: initParticles_def)

lemma initParticles_nth:
  "i < particleCount \<Longrightarrow>
     initParticles sec canvas d ! i = resetParticle sec canvas (d i) None freshParticle"
  by (simp add: initParticles_def)

lemma animate_nth:
  "n < length (particles l) \<Longrightarrow>
     particles (animate d l) ! n = advance (a_security l) (a_canvas l) (d n) (particles l ! n)"
  by (simp add: animate_def)

lemma animate_closure:
  "a_security (animate d l) = a_security l" "a_canvas (animate d l) = a_canvas l"
  "length (particles (animate d l)) = length (particles l)"
  by (simp_all add: animate_def)

lemma resetParticle_fields:
  "p_x (resetParticle sec canvas (ry, rs, rt) None p) = 0"
  "p_y (resetParticle sec canvas (ry, rs, rt) None p) = ry * height canvas"
  "p_type (resetParticle sec canvas (ry, rs, rt) None p)
     = (if rt > 0.7 then legitimate else attack)"
  by (simp_all add: resetParticle_def Let_def)

lemma resetParticle_legitimate:
  "rt > 0.7 \<Longrightarrow>
     p_color (resetParticle sec canvas (ry, rs, rt) None p) = ''#22c55e''
     \<and> p_speed (resetParticle sec canvas (ry, rs, rt) None p) = 2 + rs * 3"
  by (simp add: resetParticle_def Let_def)

lemma resetParticle_attack:
  assumes "\<not> rt > 0.7"
  shows "4 \<le> protectionLevel sec \<Longrightarrow>
       p_color (resetParticle sec canvas (ry, rs, rt) None p) = ''#ef4444''
       \<and> p_speed (resetParticle sec canvas (ry, rs, rt) None p) = (2 + rs * 3) * 0.3"
    and "2 \<le> protectionLevel sec \<Longrightarrow> protectionLevel sec < 4 \<Longrightarrow>
       p_color (resetParticle sec canvas (ry, rs, rt) None p) = ''#eab308''
       \<and> p_speed (resetParticle sec canvas (ry, rs, rt) None p) = (2 + rs * 3) * 0.6"
    and "protectionLevel sec < 2 \<Longrightarrow>
       p_color (resetParticle sec canvas (ry, rs, rt) None p) = ''#ef4444''
       \<and> p_speed (resetParticle sec canvas (ry, rs, rt) None p) = 2 + rs * 3"
  using assms by (simp_all add: resetParticle_def Let_def)

lemma animatorCleanup_loops:
  "animCleanup st \<Longrightarrow> animLoops st = l # ls \<Longrightarrow>
     animLoops (animatorCleanup st) = l\<lparr>particles := []\<rparr> # ls"
  by (simp add: animatorCleanup_def)

lemma animatorEffect_loops:
  "isSimulating st \<Longrightarrow> canvasRef st = Some canvas \<Longrightarrow> context2d canvas \<Longrightarrow>
     animLoops (animatorEffect d st)
       = animate (\<lambda>i. d (particleCount + i))
           \<lparr>particles = initParticles (security st) canvas d,
            a_security = security st, a_canvas = canvas\<rparr> # animLoops st
     \<and> animCleanup (animatorEffect d st)"
  by (simp add: animatorEffect_def)

lemma toggle_animLoops:
  assumes "isSimulating st" and "canvasRef st = Some canvas" and "context2d canvas"
    and "animCleanup st" and "animLoops st = l # ls"
  shows "animLoops (step st (ToggleSecurity k d))
    = animate (\<lambda>i. d (particleCount + i))
        \<lparr>particles = initParticles (toggle k (security st)) canvas d,
         a_security = toggle k (security st), a_canvas = canvas\<rparr>
      # l\<lparr>particles := []\<rparr> # ls"
proof -
  let ?s1 = "metricsEffect (metricsCleanup (st\<lparr>security := toggle k (security st)\<rparr>))"
  have c: "animCleanup ?s1" "animLoops ?s1 = l # ls"
    using assms(4,5) by (simp_all add: metrics_effect_anim)
  have l2: "animLoops (animatorCleanup ?s1) = l\<lparr>particles := []\<rparr> # ls"
    using c by (rule animatorCleanup_loops)
  have g: "isSimulating (animatorCleanup ?s1)" "canvasRef (animatorCleanup ?s1) = Some canvas"
      "security (animatorCleanup ?s1) = toggle k (security st)"
    using assms(1,2) by (simp_all add: animatorCleanup_fields metrics_effect_anim)
  show ?thesis
    using animatorEffect_loops [OF g(1,2) assms(3), of d] l2 g(3) by simp
qed

lemma animator_step:
  assumes "canvasRef st = Some canvas \<and> context2d canvas \<and> animCleanup st = isSimulating st
    \<and> (isSimulating st \<longrightarrow> animLoops st \<noteq> []
          \<and> a_security (hd (animLoops st)) = security st
          \<and> length (particles (hd (animLoops st))) = particleCount)"
  shows "canvasRef (step st e) = Some canvas \<and> context2d canvas
    \<and> animCleanup (step st e) = isSimulating (step st e)
    \<and> (isSimulating (step st e) \<longrightarrow> animLoops (step st e) \<noteq> []
          \<and> a_security (hd (animLoops (step st e))) = security (step st e)
          \<and> length (particles (hd (animLoops (step st e)))) = particleCount)"
proof (cases e)
  case (ClickSimulation d)
  show ?thesis
  proof (cases "isSimulating st")
    case True
    then show ?thesis
      using assms ClickSimulation
      by (simp add: setIsSimulating_def animatorEffect_def animatorCleanup_fields
          metrics_effect_anim)
  next
    case False
    let ?s1 = "animatorCleanup (metricsEffect (metricsCleanup (st\<lparr>isSimulating := True\<rparr>)))"
    have g: "isSimulating ?s1" "canvasRef ?s1 = Some canvas" "context2d canvas"
      using assms by (simp_all add: animatorCleanup_fields metrics_effect_anim)
    have sec: "security ?s1 = security st"
      by (simp add: animatorCleanup_fields metrics_effect_anim)
    have "step st e = animatorEffect d ?s1"
      using ClickSimulation False by (simp add: setIsSimulating_def)
    then show ?thesis
      using animatorEffect_loops [OF g, of d] g sec
      by (simp add: animatorEffect_fields animate_closure length_initParticles)
  qed
next
  case (SetServerConfig k v)
  then show ?thesis
    using assms by (simp add: metricsEffect_def metricsCleanup_def)
next
  case (ToggleSecurity k d)
  show ?thesis
  proof (cases "isSimulating st")
    case True
    let ?s1 = "animatorCleanup (metricsEffect (metricsCleanup
        (st\<lparr>security := toggle k (security st)\<rparr>)))"
    have g: "isSimulating ?s1" "canvasRef ?s1 = Some canvas" "context2d canvas"
      using assms True by (simp_all add: animatorCleanup_fields metrics_effect_anim)
    have sec: "security ?s1 = toggle k (security st)"
      by (simp add: animatorCleanup_fields metrics_effect_anim)
    have "step st e = animatorEffect d ?s1"
      using ToggleSecurity by simp
    then show ?thesis
      using animatorEffect_loops [OF g, of d] g sec
      by (simp add: animatorEffect_fields animate_closure length_initParticles)
  next
    case False
    then show ?thesis
      using assms ToggleSecurity
      by (simp add: animatorEffect_def animatorCleanup_def metrics_effect_anim)
  qed
next
  case (SetAttackIntensity n)
  then show ?thesis
    using assms by (simp add: metricsEffect_def metricsCleanup_def)
next
  case (Tick ts r1 r2)
  then show ?thesis
    using assms by (simp add: tick_def Let_def split: option.splits)
next
  case (Frame d)
  have "animLoops st \<noteq> [] \<Longrightarrow>
      hd (animLoops (step st (Frame d))) = animate (d 0) (hd (animLoops st))"
    by (cases "animLoops st") (simp_all add: upt_conv_Cons del: upt_Suc)
  then show ?thesis
    using assms Frame by (auto simp: animate_closure)
qed

lemma animator_reachable:
  "canvasRef (run initialState evs) = Some \<lparr>width = 400, height = 300, context2d = True\<rparr>
   \<and> context2d \<lparr>width = 400, height = 300, context2d = True\<rparr>
   \<and> animCleanup (run initialState evs) = isSimulating (run initialState evs)
   \<and> (isSimulating (run initialState evs) \<longrightarrow> animLoops (run initialState evs) \<noteq> []
         \<and> a_security (hd (animLoops (run initialState evs))) = security (run initialState evs)
         \<and> length (particles (hd (animLoops (run initialState evs)))) = particleCount)"
proof (rule run_invariant [where P = "\<lambda>s.
     canvasRef s = Some \<lparr>width = 400, height = 300, context2d = True\<rparr>
   \<and> context2d \<lparr>width = 400, height = 300, context2d = True\<rparr>
   \<and> animCleanup s = isSimulating s
   \<and> (isSimulating s \<longrightarrow> animLoops s \<noteq> []
         \<and> a_security (hd (animLoops s)) = security s
         \<and> length (particles (hd (animLoops s))) = particleCount)"])
  show "canvasRef initialState = Some \<lparr>width = 400, height = 300, context2d = True\<rparr>
   \<and> context2d \<lparr>width = 400, height = 300, context2d = True\<rparr>
   \<and> animCleanup initialState = isSimulating initialState
   \<and> (isSimulating initialState \<longrightarrow> animLoops initialState \<noteq> []
         \<and> a_security (hd (animLoops initialState)) = security initialState
         \<and> length (particles (hd (animLoops initialState))) = particleCount)"
    by (simp add: initialState_def)
qed (rule animator_step)

text \<open>
  Claim C8, amended. A reset sets \<open>x\<close> to 0, \<open>y\<close> to a draw in \<open>[0, height]\<close> and the speed
  to a base in \<open>[2, 5]\<close>; a legitimate particle is green at the base speed, an attack particle
  is red at 0.3 of the base speed from level 4 on, yellow at 0.6 of it at levels 2 and 3, and
  red at the base speed below level 2. In a frame, a particle of a running animator is
  advanced under the security measures that run was started with: a particle that stays
  within the width keeps its color and speed, one that passes it is reset. A change of the
  security measures while simulating runs the animator effect again: the pool in flight is
  emptied, and a new pool of 100 fresh particles is created, each reset under the new
  measures and advanced once by the first \<open>animate()\<close> of the new run.
\<close>

theorem particle_reset_and_protection_change:
  assumes "unit_draw ry" and "unit_draw rs" and "unit_draw rt"
    and "0 \<le> height canvas"
    and q: "q = resetParticle sec canvas (ry, rs, rt) None p"
    and "isSimulating st" and "canvasRef st = Some canvas" and "context2d canvas"
    and "animCleanup st"
    and "animLoops st = l # ls" and "n < length (particles l)"
    and "i < particleCount"
  shows "p_x q = 0 \<and> p_y q = ry * height canvas \<and> 0 \<le> p_y q \<and> p_y q \<le> height canvas
    \<and> 2 \<le> 2 + rs * 3 \<and> 2 + rs * 3 \<le> 5
    \<and> p_type q = (if rt > 0.7 then legitimate else attack)
    \<and> (p_type q = legitimate \<longrightarrow> p_color q = ''#22c55e'' \<and> p_speed q = 2 + rs * 3)
    \<and> (p_type q = attack \<and> 4 \<le> protectionLevel sec \<longrightarrow>
          p_color q = ''#ef4444'' \<and> p_speed q = (2 + rs * 3) * 0.3)
    \<and> (p_type q = attack \<and> 2 \<le> protectionLevel sec \<and> protectionLevel sec < 4 \<longrightarrow>
          p_color q = ''#eab308'' \<and> p_speed q = (2 + rs * 3) * 0.6)
    \<and> (p_type q = attack \<and> protectionLevel sec < 2 \<longrightarrow>
          p_color q = ''#ef4444'' \<and> p_speed q = 2 + rs * 3)
    \<and> particles (hd (animLoops (step st (Frame dd)))) ! n
        = advance (a_security l) (a_canvas l) (dd 0 n) (particles l ! n)
    \<and> a_security (hd (animLoops (step st (Frame dd)))) = a_security l
    \<and> (p_x p + p_speed p > width canvas \<longrightarrow>
          advance sec canvas (ry, rs, rt) p
            = resetParticle sec canvas (ry, rs, rt) None (p\<lparr>p_x := p_x p + p_speed p\<rparr>))
    \<and> (p_x p + p_speed p \<le> width canvas \<longrightarrow>
          advance sec canvas (ry, rs, rt) p = p\<lparr>p_x := p_x p + p_speed p\<rparr>)
    \<and> animLoops (step st (ToggleSecurity k d))
        = animate (\<lambda>j. d (particleCount + j))
            \<lparr>particles = initParticles (toggle k (security st)) canvas d,
             a_security = toggle k (security st), a_canvas = canvas\<rparr>
          # l\<lparr>particles := []\<rparr> # ls
    \<and> length (particles (hd (animLoops (step st (ToggleSecurity k d))))) = particleCount
    \<and> particles (hd (animLoops (step st (ToggleSecurity k d)))) ! i
        = advance (toggle k (security st)) canvas (d (particleCount + i))
            (resetParticle (toggle k (security st)) canvas (d i) None freshParticle)"
proof -
  have y: "0 \<le> ry * height canvas" "ry * height canvas \<le> height canvas"
    using assms(1,4) by (simp_all add: unit_draw_def mult_left_le_one_le)
  have s: "2 \<le> 2 + rs * 3" "2 + rs * 3 \<le> 5"
    using assms(2) by (simp_all add: unit_draw_def)
  have reset: "p_x q = 0 \<and> p_y q = ry * height canvas
      \<and> p_type q = (if rt > 0.7 then legitimate else attack)"
    unfolding q by (simp add: resetParticle_fields)
  have legit: "p_type q = legitimate \<longrightarrow> p_color q = ''#22c55e'' \<and> p_speed q = 2 + rs * 3"
    unfolding q using resetParticle_legitimate [of rt sec canvas ry rs p]
    by (simp add: resetParticle_fields split: if_splits)
  have att: "p_type q = attack \<longrightarrow> \<not> rt > 0.7"
    unfolding q by (simp add: resetParticle_fields)
  have heavy: "p_type q = attack \<and> 4 \<le> protectionLevel sec \<longrightarrow>
          p_color q = ''#ef4444'' \<and> p_speed q = (2 + rs * 3) * 0.3"
    unfolding q using att resetParticle_attack(1) [of rt sec canvas ry rs p] q by blast
  have medium: "p_type q = attack \<and> 2 \<le> protectionLevel sec \<and> protectionLevel sec < 4 \<longrightarrow>
          p_color q = ''#eab308'' \<and> p_speed q = (2 + rs * 3) * 0.6"
    unfolding q using att resetParticle_attack(2) [of rt sec canvas ry rs p] q by blast
  have none: "p_type q = attack \<and> protectionLevel sec < 2 \<longrightarrow>
          p_color q = ''#ef4444'' \<and> p_speed q = 2 + rs * 3"
    unfolding q using att resetParticle_attack(3) [of rt sec canvas ry rs p] q by blast
  have frame: "hd (animLoops (step st (Frame dd))) = animate (dd 0) l"
    using assms(10) by (simp add: upt_conv_Cons del: upt_Suc)
  have f1: "particles (hd (animLoops (step st (Frame dd)))) ! n
        = advance (a_security l) (a_canvas l) (dd 0 n) (particles l ! n)"
    unfolding frame using assms(11) by (rule animate_nth)
  have f2: "a_security (hd (animLoops (step st (Frame dd)))) = a_security l"
    unfolding frame by (simp add: animate_closure)
  have adv: "(p_x p + p_speed p > width canvas \<longrightarrow>
          advance sec canvas (ry, rs, rt) p
            = resetParticle sec canvas (ry, rs, rt) None (p\<lparr>p_x := p_x p + p_speed p\<rparr>))
    \<and> (p_x p + p_speed p \<le> width canvas \<longrightarrow>
          advance sec canvas (ry, rs, rt) p = p\<lparr>p_x := p_x p + p_speed p\<rparr>)"
    by (simp add: advance_def Let_def)
  let ?new = "\<lparr>particles = initParticles (toggle k (security st)) canvas d,
         a_security = toggle k (security st), a_canvas = canvas\<rparr>"
  have t: "animLoops (step st (ToggleSecurity k d))
      = animate (\<lambda>j. d (particleCount + j)) ?new # l\<lparr>particles := []\<rparr> # ls"
    by (rule toggle_animLoops [OF assms(6,7,8,9,10)])
  have t1: "length (particles (hd (animLoops (step st (ToggleSecurity k d))))) = particleCount"
    unfolding t by (simp add: animate_closure length_initParticles)
  have "particles (animate (\<lambda>j. d (particleCount + j)) ?new) ! i
      = advance (a_security ?new) (a_canvas ?new) (d (particleCount + i)) (particles ?new ! i)"
    using assms(12) by (intro animate_nth) (simp add: length_initParticles)
  then have t2: "particles (hd (animLoops (step st (ToggleSecurity k d)))) ! i
        = advance (toggle k (security st)) canvas (d (particleCount + i))
            (resetParticle (toggle k (security st)) canvas (d i) None freshParticle)"
    unfolding t using assms(12) by (simp add: initParticles_nth)
  show ?thesis
    using y s reset legit heavy medium none f1 f2 adv t t1 t2 by simp
qed

text \<open>
  Claim C8 as stated fails in its last part. With one measure enabled, after the start and
  one frame the pool has 100 particles, the first one red with speed 3.5 at \<open>x = 7\<close>, far
  from the right edge. Enabling a second measure empties that pool; the first particle of
  the new pool of 100 is yellow with speed 2.1 at \<open>x = 2.1\<close>. No particle crossed the edge.
\<close>

theorem protection_change_counterexample:
  "length (animLoops (run initialState
        [ToggleSecurity Fail2ban (\<lambda>i. (1 / 2, 1 / 2, 1 / 2)),
         ClickSimulation (\<lambda>i. (1 / 2, 1 / 2, 1 / 2)),
         Frame (\<lambda>j i. (1 / 2, 1 / 2, 1 / 2))])) = 1
   \<and> length (particles (hd (animLoops (run initialState
        [ToggleSecurity Fail2ban (\<lambda>i. (1 / 2, 1 / 2, 1 / 2)),
         ClickSimulation (\<lambda>i. (1 / 2, 1 / 2, 1 / 2)),
         Frame (\<lambda>j i. (1 / 2, 1 / 2, 1 / 2))])))) = 100
   \<and> particles (hd (animLoops (run initialState
        [ToggleSecurity Fail2ban (\<lambda>i. (1 / 2, 1 / 2, 1 / 2)),
         ClickSimulation (\<lambda>i. (1 / 2, 1 / 2, 1 / 2)),
         Frame (\<lambda>j i. (1 / 2, 1 / 2, 1 / 2))]))) ! 0
       = \<lparr>p_x = 7, p_y = 150, p_speed = 7 / 2, p_color = ''#ef4444'', p_type = attack\<rparr>
   \<and> length (animLoops (run initialState
        [ToggleSecurity Fail2ban (\<lambda>i. (1 / 2, 1 / 2, 1 / 2)),
         ClickSimulation (\<lambda>i. (1 / 2, 1 / 2, 1 / 2)),
         Frame (\<lambda>j i. (1 / 2, 1 / 2, 1 / 2)),
         ToggleSecurity Pfsense (\<lambda>i. (1 / 2, 1 / 2, 1 / 2))])) = 2
   \<and> particles (animLoops (run initialState
        [ToggleSecurity Fail2ban (\<lambda>i. (1 / 2, 1 / 2, 1 / 2)),
         ClickSimulation (\<lambda>i. (1 / 2, 1 / 2, 1 / 2)),
         Frame (\<lambda>j i. (1 / 2, 1 / 2, 1 / 2)),
         ToggleSecurity Pfsense (\<lambda>i. (1 / 2, 1 / 2, 1 / 2))]) ! 1) = []
   \<and> length (particles (hd (animLoops (run initialState
        [ToggleSecurity Fail2ban (\<lambda>i. (1 / 2, 1 / 2, 1 / 2)),
         ClickSimulation (\<lambda>i. (1 / 2, 1 / 2, 1 / 2)),
         Frame (\<lambda>j i. (1 / 2, 1 / 2, 1 / 2)),
         ToggleSecurity Pfsense (\<lambda>i. (1 / 2, 1 / 2, 1 / 2))])))) = 100
   \<and> particles (hd (animLoops (run initialState
        [ToggleSecurity Fail2ban (\<lambda>i. (1 / 2, 1 / 2, 1 / 2)),
         ClickSimulation (\<lambda>i. (1 / 2, 1 / 2, 1 / 2)),
         Frame (\<lambda>j i. (1 / 2, 1 / 2, 1 / 2)),
         ToggleSecurity Pfsense (\<lambda>i. (1 / 2, 1 / 2, 1 / 2))]))) ! 0
       = \<lparr>p_x = 21 / 10, p_y = 150, p_speed = 21 / 10, p_color = ''#eab308'',
          p_type = attack\<rparr>"
proof -
  let ?d = "\<lambda>i::nat. (1 / 2 :: real, 1 / 2 :: real, 1 / 2 :: real)"
  let ?canvas = "\<lparr>width = 400, height = 300, context2d = True\<rparr>"
  let ?sec1 = "\<lparr>fail2ban = True, pfsense = False, cloudflare = False,
                 loadBalancer = False, waf = False\<rparr>"
  let ?sec2 = "\<lparr>fail2ban = True, pfsense = True, cloudflare = False,
                 loadBalancer = False, waf = False\<rparr>"
  let ?L1 = "\<lparr>particles = initParticles ?sec1 ?canvas ?d, a_security = ?sec1,
               a_canvas = ?canvas\<rparr>"
  let ?L2 = "\<lparr>particles = initParticles ?sec2 ?canvas ?d, a_security = ?sec2,
               a_canvas = ?canvas\<rparr>"
  let ?S = "run initialState [ToggleSecurity Fail2ban ?d, ClickSimulation ?d, Frame (\<lambda>j. ?d)]"
  have n: "(0::nat) < particleCount" "particleCount = 100"
    by (simp_all add: particleCount_def)
  have r1: "resetParticle ?sec1 ?canvas (1 / 2, 1 / 2, 1 / 2) None freshParticle
      = \<lparr>p_x = 0, p_y = 150, p_speed = 7 / 2, p_color = ''#ef4444'', p_type = attack\<rparr>"
    by (simp add: resetParticle_def freshParticle_def Let_def protectionLevel_sum)
  have r2: "resetParticle ?sec2 ?canvas (1 / 2, 1 / 2, 1 / 2) None freshParticle
      = \<lparr>p_x = 0, p_y = 150, p_speed = 21 / 10, p_color = ''#eab308'', p_type = attack\<rparr>"
    by (simp add: resetParticle_def freshParticle_def Let_def protectionLevel_sum)
  have loops: "animLoops ?S = [animate ?d (animate ?d ?L1)]"
    by (simp add: run_Nil run_Cons effect_defs initialState_def)
  have len: "length (particles (animate ?d (animate ?d ?L1))) = 100"
    by (simp add: animate_closure length_initParticles n(2))
  have a1: "particles (animate ?d ?L1) ! 0
      = \<lparr>p_x = 7 / 2, p_y = 150, p_speed = 7 / 2, p_color = ''#ef4444'', p_type = attack\<rparr>"
    using n(1) by (simp add: animate_nth length_initParticles initParticles_nth r1 advance_def)
  have "particles (animate ?d (animate ?d ?L1)) ! 0
      = advance ?sec1 ?canvas (1 / 2, 1 / 2, 1 / 2) (particles (animate ?d ?L1) ! 0)"
    using n(1) by (simp add: animate_nth animate_closure length_initParticles)
  then have before: "particles (hd (animLoops ?S)) ! 0
      = \<lparr>p_x = 7, p_y = 150, p_speed = 7 / 2, p_color = ''#ef4444'', p_type = attack\<rparr>"
    unfolding loops list.sel a1 by (simp add: advance_def)
  have running: "isSimulating ?S" "canvasRef ?S = Some ?canvas" "context2d ?canvas"
      "animCleanup ?S"
    by (simp_all add: run_Nil run_Cons effect_defs initialState_def)
  have sec: "security ?S = ?sec1"
    by (simp add: run_Nil run_Cons effect_defs initialState_def)
  have after: "animLoops (step ?S (ToggleSecurity Pfsense ?d))
      = [animate ?d ?L2, (animate ?d (animate ?d ?L1))\<lparr>particles := []\<rparr>]"
    using toggle_animLoops [OF running loops, of Pfsense "?d"] sec by simp
  have a2: "particles (animate ?d ?L2) ! 0
      = \<lparr>p_x = 21 / 10, p_y = 150, p_speed = 21 / 10, p_color = ''#eab308'',
         p_type = attack\<rparr>"
    using n(1) by (simp add: animate_nth length_initParticles initParticles_nth r2 advance_def)
  have len2: "length (particles (animate ?d ?L2)) = 100"
    by (simp add: animate_closure length_initParticles n(2))
  have snoc: "run initialState [ToggleSecurity Fail2ban ?d, ClickSimulation ?d, Frame (\<lambda>j. ?d),
        ToggleSecurity Pfsense ?d] = step ?S (ToggleSecurity Pfsense ?d)"
    using run_snoc [of initialState "[ToggleSecurity Fail2ban ?d, ClickSimulation ?d,
        Frame (\<lambda>j. ?d)]" "ToggleSecurity Pfsense ?d"] by simp
  show ?thesis
    unfolding snoc after before
    unfolding loops list.sel
    using len len2 a2 by simp
qed

theorem particle_reset_and_protection_change_witness:
  "unit_draw (1 / 2)
   \<and> 0 \<le> height \<lparr>width = 400, height = 300, context2d = True\<rparr>
   \<and> isSimulating (run initialState [ClickSimulation (\<lambda>i. (1 / 2, 1 / 2, 1 / 2))])
   \<and> canvasRef (run initialState [ClickSimulation (\<lambda>i. (1 / 2, 1 / 2, 1 / 2))])
       = Some \<lparr>width = 400, height = 300, context2d = True\<rparr>
   \<and> animCleanup (run initialState [ClickSimulation (\<lambda>i. (1 / 2, 1 / 2, 1 / 2))])
   \<and> animLoops (run initialState [ClickSimulation (\<lambda>i. (1 / 2, 1 / 2, 1 / 2))])
       = [animate (\<lambda>i. (1 / 2, 1 / 2, 1 / 2))
            \<lparr>particles = initParticles (security initialState)
                           \<lparr>width = 400, height = 300, context2d = True\<rparr>
                           (\<lambda>i. (1 / 2, 1 / 2, 1 / 2)),
             a_security = security initialState,
             a_canvas = \<lparr>width = 400, height = 300, context2d = True\<rparr>\<rparr>]
   \<and> 0 < length (particles (animate (\<lambda>i. (1 / 2, 1 / 2, 1 / 2))
            \<lparr>particles = initParticles (security initialState)
                           \<lparr>width = 400, height = 300, context2d = True\<rparr>
                           (\<lambda>i. (1 / 2, 1 / 2, 1 / 2)),
             a_security = security initialState,
             a_canvas = \<lparr>width = 400, height = 300, context2d = True\<rparr>\<rparr>))
   \<and> 0 < particleCount
   \<and> particles (hd (animLoops
        (step (run initialState [ClickSimulation (\<lambda>i. (1 / 2, 1 / 2, 1 / 2))])
           (ToggleSecurity Fail2ban (\<lambda>i. (1 / 2, 1 / 2, 1 / 2)))))) ! 0
       = \<lparr>p_x = 7 / 2, p_y = 150, p_speed = 7 / 2, p_color = ''#ef4444'', p_type = attack\<rparr>
   \<and> particles (animLoops
        (step (run initialState [ClickSimulation (\<lambda>i. (1 / 2, 1 / 2, 1 / 2))])
           (ToggleSecurity Fail2ban (\<lambda>i. (1 / 2, 1 / 2, 1 / 2)))) ! 1) = []
   \<and> p_speed (resetParticle (security initialState)
        \<lparr>width = 400, height = 300, context2d = True\<rparr> (1 / 2, 1 / 2, 1 / 2) None
        freshParticle) = 7 / 2"
proof -
  let ?d = "\<lambda>i::nat. (1 / 2 :: real, 1 / 2 :: real, 1 / 2 :: real)"
  let ?canvas = "\<lparr>width = 400, height = 300, context2d = True\<rparr>"
  let ?L = "animate ?d \<lparr>particles = initParticles (security initialState) ?canvas ?d,
              a_security = security initialState, a_canvas = ?canvas\<rparr>"
  let ?st = "run initialState [ClickSimulation ?d]"
  let ?q = "resetParticle (security initialState) ?canvas (1 / 2, 1 / 2, 1 / 2) None freshParticle"
  let ?sec1 = "\<lparr>fail2ban = True, pfsense = False, cloudflare = False,
                 loadBalancer = False, waf = False\<rparr>"
  have u: "unit_draw (1 / 2)"
    by (simp add: unit_draw_def)
  have h: "0 \<le> height ?canvas"
    by simp
  have q: "?q = ?q"
    by (rule refl)
  have r: "isSimulating ?st" "canvasRef ?st = Some ?canvas" "context2d ?canvas"
      "animCleanup ?st"
    by (simp_all add: run_Nil run_Cons effect_defs initialState_def)
  have a: "animLoops ?st = ?L # []"
    by (simp add: run_Nil run_Cons effect_defs initialState_def)
  have c: "(0::nat) < particleCount"
    by (simp add: particleCount_def)
  have n: "0 < length (particles ?L)"
    using c by (simp add: animate_closure length_initParticles)
  have sec: "toggle Fail2ban (security ?st) = ?sec1"
    by (simp add: run_Nil run_Cons effect_defs initialState_def)
  note inst = particle_reset_and_protection_change [OF u u u h q r a n c, of "\<lambda>j. ?d" Fail2ban ?d]
  from inst have "particles (hd (animLoops (step ?st (ToggleSecurity Fail2ban ?d)))) ! 0
        = advance (toggle Fail2ban (security ?st)) ?canvas (?d (particleCount + 0))
            (resetParticle (toggle Fail2ban (security ?st)) ?canvas (?d 0) None freshParticle)"
    by blast
  then have first: "particles (hd (animLoops (step ?st (ToggleSecurity Fail2ban ?d)))) ! 0
      = \<lparr>p_x = 7 / 2, p_y = 150, p_speed = 7 / 2, p_color = ''#ef4444'', p_type = attack\<rparr>"
    unfolding sec
    by (simp add: advance_def resetParticle_def freshParticle_def Let_def protectionLevel_sum)
  from inst have "animLoops (step ?st (ToggleSecurity Fail2ban ?d))
        = animate (\<lambda>j. ?d (particleCount + j))
            \<lparr>particles = initParticles (toggle Fail2ban (security ?st)) ?canvas ?d,
             a_security = toggle Fail2ban (security ?st), a_canvas = ?canvas\<rparr>
          # ?L\<lparr>particles := []\<rparr> # []"
    by blast
  then have old: "particles (animLoops (step ?st (ToggleSecurity Fail2ban ?d)) ! 1) = []"
    by simp
  have sp: "p_speed ?q = 7 / 2"
    by (simp add: resetParticle_def freshParticle_def Let_def protectionLevel_sum
        initialState_def)
  show ?thesis
    using u h r a n c first old sp by simp
qed

end
